theory Spec2Isabelle
  imports Complex_Main
begin

section \<open>Board items and the task zone\<close>

text \<open>
  A board item as the server stores it. Only the fields the positioning code reads are
  kept; JavaScript numbers are modelled as reals (random positions are fractional).
\<close>

record board_item =
  item_id :: string
  item_type :: string
  item_x :: real
  item_y :: real
  item_width :: real
  item_height :: real

record zone =
  zone_x :: real
  zone_y :: real
  zone_width :: real
  zone_height :: real

record position =
  pos_x :: real
  pos_y :: real

text \<open>The candidate handed to the allocator: \<^verbatim>\<open>{ type, width, height }\<close>.\<close>

record temp_item =
  temp_type :: string
  temp_width :: real
  temp_height :: real

definition TASK_ZONE :: zone where
  "TASK_ZONE = \<lparr>zone_x = 4200, zone_y = 0, zone_width = 2000, zone_height = 2100\<rparr>"

definition padding :: real where
  "padding = 60"

definition rowHeight :: real where
  "rowHeight = 490"

definition colWidth :: real where
  "colWidth = 560"

definition inTaskZone :: "board_item \<Rightarrow> bool" where
  "inTaskZone item \<longleftrightarrow>
     item_x item \<ge> zone_x TASK_ZONE \<and>
     item_x item < zone_x TASK_ZONE + zone_width TASK_ZONE \<and>
     item_y item \<ge> zone_y TASK_ZONE \<and>
     item_y item < zone_y TASK_ZONE + zone_height TASK_ZONE"

definition isApiItem :: "board_item \<Rightarrow> bool" where
  "isApiItem item \<longleftrightarrow>
     item_type item = ''agent'' \<or> item_type item = ''todo'' \<or> item_type item = ''lab-result''"

section \<open>The zone allocator: findTaskZonePosition\<close>

definition taskZoneItems :: "board_item list \<Rightarrow> board_item list" where
  "taskZoneItems existingItems = filter (\<lambda>item. inTaskZone item \<and> isApiItem item) existingItems"

definition maxCols :: int where
  "maxCols = \<lfloor>zone_width TASK_ZONE / colWidth\<rfloor>"

definition maxRows :: int where
  "maxRows = \<lfloor>zone_height TASK_ZONE / rowHeight\<rfloor>"

text \<open>\<^verbatim>\<open>Array(maxRows).fill(null).map(() => Array(maxCols).fill(false))\<close>\<close>

definition emptyGrid :: "bool list list" where
  "emptyGrid = replicate (nat maxRows) (replicate (nat maxCols) False)"

definition itemCol :: "board_item \<Rightarrow> int" where
  "itemCol item = \<lfloor>(item_x item - zone_x TASK_ZONE) / colWidth\<rfloor>"

definition itemRow :: "board_item \<Rightarrow> int" where
  "itemRow item = \<lfloor>(item_y item - zone_y TASK_ZONE - 60) / rowHeight\<rfloor>"

text \<open>The body of the \<^verbatim>\<open>forEach\<close> that marks occupied cells; a cell outside the grid is skipped.\<close>

definition markItem :: "board_item \<Rightarrow> bool list list \<Rightarrow> bool list list" where
  "markItem item grid =
     (let col = itemCol item; row = itemRow item
      in if row \<ge> 0 \<and> row < maxRows \<and> col \<ge> 0 \<and> col < maxCols
         then grid[nat row := (grid ! nat row)[nat col := True]]
         else grid)"

definition occupiedGrid :: "board_item list \<Rightarrow> bool list list" where
  "occupiedGrid existingItems = fold markItem (taskZoneItems existingItems) emptyGrid"

text \<open>
  The nested \<^verbatim>\<open>for\<close> loops: rows from the top, columns from the left within a row,
  stopping at the first cell that is not marked.
\<close>

definition gridCells :: "(nat \<times> nat) list" where
  "gridCells = List.product [0..<nat maxRows] [0..<nat maxCols]"

definition firstFree :: "bool list list \<Rightarrow> (nat \<times> nat) option" where
  "firstFree grid = List.find (\<lambda>(row, col). \<not> grid ! row ! col) gridCells"

definition findTaskZonePosition :: "temp_item \<Rightarrow> board_item list \<Rightarrow> position" where
  "findTaskZonePosition newItem existingItems =
     (case firstFree (occupiedGrid existingItems) of
        Some (row, col) \<Rightarrow>
          \<lparr>pos_x = zone_x TASK_ZONE + real col * colWidth + padding,
           pos_y = zone_y TASK_ZONE + real row * rowHeight + 60\<rparr>
      | None \<Rightarrow>
          \<lparr>pos_x = zone_x TASK_ZONE + padding,
           pos_y = zone_y TASK_ZONE + 60
                   + real (length (taskZoneItems existingItems)) * (rowHeight + padding)\<rparr>)"

section \<open>Collision test\<close>


section \<open>HTTP responses and JavaScript defaults\<close>

text \<open>
  \<^verbatim>\<open>res.status(n).json(body)\<close> is \<open>Json n body\<close>; a body \<^verbatim>\<open>{ error: msg }\<close> is
  \<open>Error n msg\<close>.
\<close>

datatype 'a response = Json nat 'a | Error nat string

fun statusCode :: "'a response \<Rightarrow> nat" where
  "statusCode (Json n _) = n"
| "statusCode (Error n _) = n"

text \<open>
  Truthiness of a value that is a string or \<^verbatim>\<open>undefined\<close>: only the empty string and
  \<^verbatim>\<open>undefined\<close> are falsy.
\<close>

definition truthy :: "string option \<Rightarrow> bool" where
  "truthy s = (case s of None \<Rightarrow> False | Some t \<Rightarrow> t \<noteq> [])"

text \<open>\<^verbatim>\<open>a || b\<close> on such values.\<close>

definition strOr :: "string option \<Rightarrow> string option \<Rightarrow> string option" where
  "strOr a b = (if truthy a then a else b)"

text \<open>\<^verbatim>\<open>v || d\<close> where \<open>v\<close> is a number or \<^verbatim>\<open>undefined\<close>: zero is falsy.\<close>

definition numOr :: "real option \<Rightarrow> real \<Rightarrow> real" where
  "numOr v d = (case v of None \<Rightarrow> d | Some n \<Rightarrow> if n = 0 then d else n)"

section \<open>Creating grid-managed items\<close>

text \<open>
  The handlers \<^verbatim>\<open>POST /api/todos\<close>, \<^verbatim>\<open>/api/agents\<close>, \<^verbatim>\<open>/api/lab-results\<close> and
  \<^verbatim>\<open>/api/enhanced-todo\<close> exist on the Redis-backed and on the file-backed server. After
  validating the body they run the same block: load the collection, take \<^verbatim>\<open>req.body.x\<close> and
  \<^verbatim>\<open>req.body.y\<close> when both are defined and ask the allocator otherwise, build the item, save
  the collection with the item appended, answer.
\<close>

datatype backend = RedisServer | FileServer

datatype handler = Todos | Agents | LabResults | EnhancedTodo

text \<open>The type each handler writes into the item.\<close>

fun handlerType :: "handler \<Rightarrow> string" where
  "handlerType Todos = ''todo''"
| "handlerType Agents = ''agent''"
| "handlerType LabResults = ''lab-result''"
| "handlerType EnhancedTodo = ''todo''"

text \<open>The body of the 500 answer of each handler.\<close>

fun failureMessage :: "handler \<Rightarrow> string" where
  "failureMessage Todos = ''Failed to create todo item''"
| "failureMessage Agents = ''Failed to create agent item''"
| "failureMessage LabResults = ''Failed to create lab result''"
| "failureMessage EnhancedTodo = ''Failed to create enhanced todo''"

text \<open>
  A validated request. The identifier comes from the clock and the random generator. The
  footprint is what the handler stores: 420 by \<^verbatim>\<open>calculateTodoHeight\<close> for todos, 520 by
  \<^verbatim>\<open>calculateHeight\<close> for agents, 400 by 280 for lab results, and the \<^verbatim>\<open>width\<close> and
  \<^verbatim>\<open>height\<close> of the request body for enhanced todos (a numeric height is assumed; the
  default is the string \<^verbatim>\<open>'auto'\<close>).
\<close>

record create_req =
  new_handler :: handler
  new_id :: string
  body_x :: "real option"
  body_y :: "real option"
  new_width :: real
  new_height :: real

text \<open>
  The candidate handed to the allocator, which only logs it. The enhanced-todo handler
  passes the height 400 whatever the body says.
\<close>

definition tempItem :: "create_req \<Rightarrow> temp_item" where
  "tempItem req =
     \<lparr>temp_type = handlerType (new_handler req), temp_width = new_width req,
      temp_height = (if new_handler req = EnhancedTodo then 400 else new_height req)\<rparr>"

definition determinePosition :: "create_req \<Rightarrow> board_item list \<Rightarrow> position" where
  "determinePosition req existingItems =
     (if body_x req \<noteq> None \<and> body_y req \<noteq> None
      then \<lparr>pos_x = the (body_x req), pos_y = the (body_y req)\<rparr>
      else findTaskZonePosition (tempItem req) existingItems)"

text \<open>
  One creation: the answer and the stored collection. \<open>saved\<close> says whether
  \<^verbatim>\<open>saveBoardItems\<close> succeeds. On the Redis-backed server a failed save returns
  \<^verbatim>\<open>false\<close>, which the handler at most logs: it answers 201 with the item and nothing is
  stored (this is what happens on every request when no \<^verbatim>\<open>REDIS_URL\<close> is configured). On
  the file-backed server a failed save throws and the handler answers 500.
\<close>

definition createItem ::
  "backend \<Rightarrow> bool \<Rightarrow> create_req \<Rightarrow> board_item list \<Rightarrow> board_item response \<times> board_item list" where
  "createItem server saved req existingItems =
     (let p = determinePosition req existingItems;
          newItem = \<lparr>item_id = new_id req, item_type = handlerType (new_handler req),
                     item_x = pos_x p, item_y = pos_y p,
                     item_width = new_width req, item_height = new_height req\<rparr>
      in if saved then (Json 201 newItem, existingItems @ [newItem])
         else (case server of
                 RedisServer \<Rightarrow> (Json 201 newItem, existingItems)
               | FileServer \<Rightarrow> (Error 500 (failureMessage (new_handler req)), existingItems)))"

text \<open>
  A sequence of creations on one server, each with its own save outcome and each loading
  the collection the previous ones left in the store. The result is the list of answers
  and the final collection.
\<close>

fun createAll ::
  "backend \<Rightarrow> (bool \<times> create_req) list \<Rightarrow> board_item list
     \<Rightarrow> board_item response list \<times> board_item list" where
  "createAll server [] items = ([], items)"
| "createAll server ((saved, req) # calls) items =
     (let (answer, stored) = createItem server saved req items;
          (answers, final) = createAll server calls stored
      in (answer # answers, final))"

section \<open>POST /api/board-items\<close>

record item_body =
  ib_type :: "string option"
  ib_componentType :: "string option"
  ib_x :: "real option"
  ib_y :: "real option"
  ib_width :: "real option"
  ib_height :: "real option"

definition componentDefaults :: "string option \<Rightarrow> real \<times> real" where
  "componentDefaults componentType =
     (if componentType = Some ''PatientContext'' then (1600, 300)
      else if componentType = Some ''EncounterTimeline'' then (1600, 400)
      else if componentType = Some ''AdverseEventAnalytics'' then (1600, 500)
      else if componentType = Some ''LabTable'' \<or> componentType = Some ''LabChart''
              \<or> componentType = Some ''DifferentialDiagnosis'' then (520, 400)
      else (600, 400))"

text \<open>
  The handler of the file-backed server. \<open>randX\<close> and \<open>randY\<close> are the values
  \<^verbatim>\<open>Math.random()\<close> returns (in \<open>[0, 1)\<close>) when the handler draws them; \<open>writeOk\<close> says
  whether \<^verbatim>\<open>saveBoardItems\<close> succeeds (it throws otherwise, and the handler answers 500).
  The result is the response and the stored collection.
\<close>

definition post_board_items ::
  "bool \<Rightarrow> string \<Rightarrow> real \<Rightarrow> real \<Rightarrow> item_body \<Rightarrow> board_item list
     \<Rightarrow> board_item response \<times> board_item list" where
  "post_board_items writeOk newId randX randY body existingItems =
     (if \<not> truthy (ib_type body) then (Error 400 ''Type is required'', existingItems)
      else
        let type = the (ib_type body);
            (defaultWidth, defaultHeight) =
              (if type = ''component'' then componentDefaults (ib_componentType body)
               else (if type = ''text'' then 200 else if type = ''ehr'' then 550 else 150,
                     if type = ''text'' then 100 else if type = ''ehr'' then 450 else 150));
            newItem = \<lparr>item_id = newId, item_type = type,
                       item_x = numOr (ib_x body) (randX * 8000 + 100),
                       item_y = numOr (ib_y body) (randY * 7000 + 100),
                       item_width = numOr (ib_width body) defaultWidth,
                       item_height = numOr (ib_height body) defaultHeight\<rparr>;
            updatedItems = existingItems @ [newItem]
        in if writeOk then (Json 201 newItem, updatedItems)
           else (Error 500 ''Failed to create board item'', existingItems))"

section \<open>DELETE /api/task-zone\<close>

record cleared =
  cleared_success :: bool
  removedCount :: int
  remainingCount :: int

definition delete_task_zone ::
  "bool \<Rightarrow> board_item list \<Rightarrow> cleared response \<times> board_item list" where
  "delete_task_zone writeOk items =
     (let filteredItems = filter (\<lambda>item. \<not> (inTaskZone item \<and> isApiItem item)) items;
          removed = int (length items) - int (length filteredItems)
      in if writeOk
         then (Json 200 \<lparr>cleared_success = True, removedCount = removed,
                          remainingCount = int (length filteredItems)\<rparr>, filteredItems)
         else (Error 500 ''Failed to clear task zone'', items))"

section \<open>PUT /api/board-items/:id\<close>

text \<open>
  The update handler looks at no field but \<^verbatim>\<open>id\<close> and merges an arbitrary request body,
  so here an item is its raw JSON object: a map from field names to JSON values.
\<close>

datatype json = JNull | JBool bool | JNum real | JStr string | JArr "json list"
  | JObj "(string \<times> json) list"

type_synonym jobject = "string \<rightharpoonup> json"

text \<open>\<^verbatim>\<open>Array.prototype.findIndex\<close>, with \<open>None\<close> for \<open>-1\<close>.\<close>

fun findIndex :: "('a \<Rightarrow> bool) \<Rightarrow> 'a list \<Rightarrow> nat option" where
  "findIndex P [] = None"
| "findIndex P (x # xs) = (if P x then Some 0 else map_option Suc (findIndex P xs))"

definition hasId :: "string \<Rightarrow> jobject \<Rightarrow> bool" where
  "hasId itemId item \<longleftrightarrow> item ''id'' = Some (JStr itemId)"

text \<open>
  \<^verbatim>\<open>updateSourceDataHeight\<close> rewrites the height of the item in the source data file; every
  failure of the file system is caught inside it and leaves the file as it was
  (\<open>sourceOk = False\<close>).
\<close>

definition updateSourceDataHeight :: "bool \<Rightarrow> string \<Rightarrow> json \<Rightarrow> jobject list \<Rightarrow> jobject list" where
  "updateSourceDataHeight sourceOk itemId newHeight sourceItems =
     (if \<not> sourceOk then sourceItems
      else case findIndex (hasId itemId) sourceItems of
             None \<Rightarrow> sourceItems
           | Some itemIndex \<Rightarrow>
               sourceItems[itemIndex := (sourceItems ! itemIndex)(''height'' \<mapsto> newHeight)])"

text \<open>
  The file-backed server. The result is the response, the stored collection and the source
  data file. \<open>now\<close> is \<^verbatim>\<open>new Date().toISOString()\<close>.
\<close>

definition put_board_item ::
  "bool \<Rightarrow> bool \<Rightarrow> string \<Rightarrow> jobject \<Rightarrow> string \<Rightarrow> jobject list \<Rightarrow> jobject list
     \<Rightarrow> jobject response \<times> jobject list \<times> jobject list" where
  "put_board_item writeOk sourceOk itemId updates now items sourceItems =
     (case findIndex (hasId itemId) items of
        None \<Rightarrow> (Error 404 ''Board item not found'', items, sourceItems)
      | Some itemIndex \<Rightarrow>
          let items' = items[itemIndex := (items ! itemIndex ++ updates)(''updatedAt'' \<mapsto> JStr now)]
          in if \<not> writeOk then (Error 500 ''Failed to update board item'', items, sourceItems)
             else (Json 200 (items' ! itemIndex), items',
                   if updates ''height'' \<noteq> None
                   then updateSourceDataHeight sourceOk itemId (the (updates ''height'')) sourceItems
                   else sourceItems))"

text \<open>
  The Redis-backed server: \<^verbatim>\<open>saveBoardItems\<close> reports a failure by returning \<^verbatim>\<open>false\<close>,
  which the handler ignores, and there is no source-file step.
\<close>

definition put_board_item_redis ::
  "bool \<Rightarrow> string \<Rightarrow> jobject \<Rightarrow> string \<Rightarrow> jobject list
     \<Rightarrow> jobject response \<times> jobject list" where
  "put_board_item_redis saved itemId updates now items =
     (case findIndex (hasId itemId) items of
        None \<Rightarrow> (Error 404 ''Board item not found'', items)
      | Some itemIndex \<Rightarrow>
          let items' = items[itemIndex := (items ! itemIndex ++ updates)(''updatedAt'' \<mapsto> JStr now)]
          in (Json 200 (items' ! itemIndex), if saved then items' else items))"

section \<open>POST /api/focus\<close>

record focus_body =
  fb_objectId :: "string option"
  fb_itemId :: "string option"
  fb_subElement :: "string option"
  fb_focusOptions :: "jobject option"

record focus_event =
  ev_event :: string
  ev_objectId :: string
  ev_itemId :: string
  ev_subElement :: "string option"
  ev_focusOptions :: jobject
  ev_timestamp :: string

record focus_ack =
  ack_success :: bool
  ack_message :: string
  ack_itemId :: string
  ack_subElement :: "string option"
  ack_focusOptions :: jobject

text \<open>\<^verbatim>\<open>subElement || null\<close>\<close>

definition orNull :: "string option \<Rightarrow> string option" where
  "orNull s = (if truthy s then s else None)"

definition defaultOptions :: "string option \<Rightarrow> jobject" where
  "defaultOptions subElement =
     [''zoom'' \<mapsto> JNum (if truthy subElement then 1.5 else 0.8),
      ''highlight'' \<mapsto> JBool (truthy subElement),
      ''duration'' \<mapsto> JNum 2000,
      ''scrollIntoView'' \<mapsto> JBool True]"

text \<open>
  The handler of the Redis-backed server. The event bus is the list of messages handed to
  \<^verbatim>\<open>broadcastSSE\<close>, each of which that function writes to every connected client.
\<close>

definition post_focus ::
  "string \<Rightarrow> focus_body \<Rightarrow> focus_event list \<Rightarrow> focus_ack response \<times> focus_event list" where
  "post_focus now body bus =
     (let targetId = strOr (fb_itemId body) (fb_objectId body)
      in if \<not> truthy targetId then (Error 400 ''objectId or itemId is required'', bus)
         else
           let subElement = fb_subElement body;
               options = defaultOptions subElement
                           ++ (case fb_focusOptions body of None \<Rightarrow> Map.empty | Some m \<Rightarrow> m);
               payload = \<lparr>ev_event = ''focus'', ev_objectId = the targetId,
                          ev_itemId = the targetId, ev_subElement = orNull subElement,
                          ev_focusOptions = options, ev_timestamp = now\<rparr>
           in (Json 200 \<lparr>ack_success = True, ack_message = ''Focus event broadcasted'',
                          ack_itemId = the targetId, ack_subElement = orNull subElement,
                          ack_focusOptions = options\<rparr>,
               bus @ [payload]))"

section \<open>The canvas: viewport and camera\<close>

record viewport =
  vp_x :: real
  vp_y :: real
  vp_zoom :: real

record container =
  clientWidth :: real
  clientHeight :: real

definition clampZoom :: "real \<Rightarrow> real" where
  "clampZoom z = max 0.1 (min 3 z)"

definition easeInOut :: "real \<Rightarrow> real" where
  "easeInOut t = (if t < 0.5 then 2 * t * t else - 1 + (4 - 2 * t) * t)"

text \<open>What one call of \<^verbatim>\<open>centerOnItem\<close> closes over for its frame callback.\<close>

record animation =
  an_start :: viewport
  an_containerWidth :: real
  an_containerHeight :: real
  an_item :: board_item
  an_finalZoom :: real
  an_duration :: real

text \<open>
  The viewport the frame callback \<^verbatim>\<open>animate\<close> hands to \<^verbatim>\<open>updateViewport\<close> when it
  runs \<open>elapsed\<close> milliseconds after the call. Numbers are reals: a division by zero (a zero duration or start zoom)
  gives \<^verbatim>\<open>NaN\<close> or an infinity in JavaScript and is outside this model.
\<close>

definition animate :: "animation \<Rightarrow> real \<Rightarrow> viewport" where
  "animate a elapsed =
     (let start = an_start a;
          containerWidth = an_containerWidth a;
          containerHeight = an_containerHeight a;
          item = an_item a;
          finalZoom = an_finalZoom a;
          duration = an_duration a;
          phaseDuration = duration / 3;
          t1 = phaseDuration;
          t2 = phaseDuration * 2;
          t3 = duration;
          zoomOutZoom = clampZoom (vp_zoom start * 0.3);
          targetObjectCenterX = item_x item + item_width item / 2;
          targetObjectCenterY = item_y item + item_height item / 2;
          targetViewportX = containerWidth / 2 - targetObjectCenterX * zoomOutZoom;
          targetViewportY = containerHeight / 2 - targetObjectCenterY * zoomOutZoom;
          finalViewportX = containerWidth / 2 - targetObjectCenterX * finalZoom;
          finalViewportY = containerHeight / 2 - targetObjectCenterY * finalZoom
      in if elapsed \<le> t1 then
           (let k = easeInOut (elapsed / t1);
                currentZoom = vp_zoom start + (zoomOutZoom - vp_zoom start) * k;
                currentCenterX = (containerWidth / 2 - vp_x start) / vp_zoom start;
                currentCenterY = (containerHeight / 2 - vp_y start) / vp_zoom start;
                newX = containerWidth / 2 - currentCenterX * currentZoom;
                newY = containerHeight / 2 - currentCenterY * currentZoom
            in \<lparr>vp_x = newX, vp_y = newY, vp_zoom = currentZoom\<rparr>)
         else if elapsed \<le> t2 then
           (let k = easeInOut ((elapsed - t1) / (t2 - t1));
                step1EndX = containerWidth / 2
                            - ((containerWidth / 2 - vp_x start) / vp_zoom start) * zoomOutZoom;
                step1EndY = containerHeight / 2
                            - ((containerHeight / 2 - vp_y start) / vp_zoom start) * zoomOutZoom;
                currentX = step1EndX + (targetViewportX - step1EndX) * k;
                currentY = step1EndY + (targetViewportY - step1EndY) * k
            in \<lparr>vp_x = currentX, vp_y = currentY, vp_zoom = zoomOutZoom\<rparr>)
         else
           (let k = easeInOut ((elapsed - t2) / (t3 - t2));
                currentX = targetViewportX + (finalViewportX - targetViewportX) * k;
                currentY = targetViewportY + (finalViewportY - targetViewportY) * k;
                currentZoom = zoomOutZoom + (finalZoom - zoomOutZoom) * k
            in \<lparr>vp_x = currentX, vp_y = currentY, vp_zoom = currentZoom\<rparr>))"

text \<open>\<^verbatim>\<open>getViewportCenterWorld\<close>: the world point shown at the middle of the container.\<close>

definition viewportCenterWorld :: "real \<Rightarrow> real \<Rightarrow> viewport \<Rightarrow> real \<times> real" where
  "viewportCenterWorld containerWidth containerHeight v =
     ((containerWidth / 2 - vp_x v) / vp_zoom v, (containerHeight / 2 - vp_y v) / vp_zoom v)"

section \<open>The client: Canvas and App state\<close>

datatype console_entry = ConsoleLog string | ConsoleWarn string | ConsoleError string

text \<open>
  The callback \<^verbatim>\<open>handleFocusRequest\<close> hands to \<^verbatim>\<open>setTimeout\<close>: add the highlight class to the
  named sub-element and schedule its removal after the second component (milliseconds).
\<close>

datatype timer_action = Highlight string real

record timer =
  tm_delay :: real
  tm_action :: timer_action

text \<open>
  \<open>cl_container\<close> is \<open>None\<close> while the canvas element or its parent is not mounted;
  \<open>cl_centerOnItem\<close> says whether the canvas has installed \<^verbatim>\<open>window.centerOnItem\<close>;
  \<open>cl_animations\<close> are the frame loops started so far, \<open>cl_timers\<close> the pending timeouts.
  Console entries keep the level and the fixed text of the message.
\<close>

record client =
  cl_items :: "board_item list"
  cl_selectedItemId :: "string option"
  cl_viewport :: viewport
  cl_container :: "container option"
  cl_centerOnItem :: bool
  cl_animations :: "animation list"
  cl_timers :: "timer list"
  cl_console :: "console_entry list"

text \<open>
  \<^verbatim>\<open>centerOnItem(itemId, finalZoom = 0.8, duration = 3000)\<close>: an absent argument is \<open>None\<close>.
  The call returns at once when the item or the container is missing; otherwise it starts a
  frame loop over the start viewport.
\<close>

definition centerOnItem :: "string \<Rightarrow> real option \<Rightarrow> real option \<Rightarrow> client \<Rightarrow> client" where
  "centerOnItem itemId finalZoomArg durationArg c =
     (let finalZoom = (case finalZoomArg of None \<Rightarrow> 0.8 | Some z \<Rightarrow> z);
          duration = (case durationArg of None \<Rightarrow> 3000 | Some d \<Rightarrow> d)
      in case List.find (\<lambda>i. item_id i = itemId) (cl_items c) of
           None \<Rightarrow> c
         | Some item \<Rightarrow>
             (case cl_container c of
                None \<Rightarrow> c
              | Some box \<Rightarrow>
                  c\<lparr>cl_animations := cl_animations c @
                       [\<lparr>an_start = cl_viewport c,
                         an_containerWidth = clientWidth box,
                         an_containerHeight = clientHeight box,
                         an_item = item, an_finalZoom = finalZoom,
                         an_duration = duration\<rparr>]\<rparr>))"

record focus_options =
  fo_zoom :: "real option"
  fo_duration :: "real option"

record focus_request =
  fr_objectId :: "string option"
  fr_itemId :: "string option"
  fr_subElement :: "string option"
  fr_focusOptions :: "focus_options option"

definition consoleWrite :: "console_entry \<Rightarrow> client \<Rightarrow> client" where
  "consoleWrite e c = c\<lparr>cl_console := cl_console c @ [e]\<rparr>"

definition focusOnItem :: "string option \<Rightarrow> client \<Rightarrow> client" where
  "focusOnItem itemId c = c\<lparr>cl_selectedItemId := itemId\<rparr>"

definition setTimeout :: "timer_action \<Rightarrow> real \<Rightarrow> client \<Rightarrow> client" where
  "setTimeout action delay c = c\<lparr>cl_timers := cl_timers c @ [\<lparr>tm_delay = delay, tm_action = action\<rparr>]\<rparr>"

definition handleFocusRequest :: "focus_request \<Rightarrow> client \<Rightarrow> client" where
  "handleFocusRequest request c =
     (let c1 = consoleWrite (ConsoleLog ''Available items:'')
                 (consoleWrite (ConsoleLog ''Focus request received:'') c);
          targetId = strOr (fr_objectId request) (fr_itemId request);
          item = (case targetId of
                    None \<Rightarrow> None
                  | Some tid \<Rightarrow> List.find (\<lambda>i. item_id i = tid) (cl_items c))
      in if item \<noteq> None then
           let c2 = consoleWrite (ConsoleLog ''Item found, focusing:'') c1;
               zoom = numOr (case fr_focusOptions request of None \<Rightarrow> None | Some fo \<Rightarrow> fo_zoom fo) 0.8;
               duration = numOr (case fr_focusOptions request of None \<Rightarrow> None | Some fo \<Rightarrow> fo_duration fo) 3000;
               c3 = focusOnItem targetId c2;
               c4 = (if truthy (fr_subElement request)
                     then setTimeout (Highlight (the (fr_subElement request)) duration) 100
                            (consoleWrite (ConsoleLog ''Sub-element focus requested:'') c3)
                     else c3)
           in if cl_centerOnItem c4
              then centerOnItem (the targetId) (Some zoom) (Some duration)
                     (consoleWrite (ConsoleLog ''Calling centerOnItem with:'') c4)
              else consoleWrite (ConsoleError ''centerOnItem function not available on window'') c4
         else consoleWrite (ConsoleError ''Available item IDs:'')
                (consoleWrite (ConsoleError ''Item not found:'') c1))"

section \<open>Auxiliary notions for the proofs\<close>

text \<open>The grid keeps its shape while cells are marked.\<close>

definition gridShape :: "bool list list \<Rightarrow> bool" where
  "gridShape grid \<longleftrightarrow>
     length grid = nat maxRows \<and> (\<forall>row < nat maxRows. length (grid ! row) = nat maxCols)"

text \<open>
  The cells of the grid that the items of the collection leave unmarked, in scan order:
  their number is what is left of the capacity \<open>maxRows * maxCols\<close>.
\<close>

definition freeCells :: "board_item list \<Rightarrow> (nat \<times> nat) list" where
  "freeCells items = filter (\<lambda>(row, col). \<not> occupiedGrid items ! row ! col) gridCells"

definition cellPosition :: "nat \<times> nat \<Rightarrow> position" where
  "cellPosition cell =
     \<lparr>pos_x = zone_x TASK_ZONE + real (snd cell) * colWidth + padding,
      pos_y = zone_y TASK_ZONE + real (fst cell) * rowHeight + padding\<rparr>"

definition isAuto :: "create_req \<Rightarrow> bool" where
  "isAuto req \<longleftrightarrow> body_x req = None \<or> body_y req = None"

text \<open>The item a creation request yields when the allocator picks the given cell.\<close>

definition placedAt :: "create_req \<Rightarrow> nat \<times> nat \<Rightarrow> board_item" where
  "placedAt req cell =
     \<lparr>item_id = new_id req, item_type = handlerType (new_handler req),
      item_x = pos_x (cellPosition cell), item_y = pos_y (cellPosition cell),
      item_width = new_width req, item_height = new_height req\<rparr>"

section \<open>The grid and the scan\<close>

lemma maxCols_eq: "maxCols = 3"
  by (simp add: maxCols_def TASK_ZONE_def colWidth_def)

lemma maxRows_eq: "maxRows = 4"
  by (simp add: maxRows_def TASK_ZONE_def rowHeight_def)

lemma emptyGrid_shape: "gridShape emptyGrid"
  by (simp add: gridShape_def emptyGrid_def)

lemma emptyGrid_cell: "row < nat maxRows \<Longrightarrow> col < nat maxCols \<Longrightarrow> \<not> emptyGrid ! row ! col"
  by (simp add: emptyGrid_def)

lemma markItem_shape: "gridShape grid \<Longrightarrow> gridShape (markItem item grid)"
  by (auto simp: gridShape_def markItem_def Let_def nth_list_update)

lemma markItem_cell:
  assumes "gridShape grid" "row < nat maxRows" "col < nat maxCols"
  shows "markItem item grid ! row ! col \<longleftrightarrow>
           grid ! row ! col \<or> (itemRow item = int row \<and> itemCol item = int col)"
proof (cases "itemRow item \<ge> 0 \<and> itemRow item < maxRows \<and> itemCol item \<ge> 0 \<and> itemCol item < maxCols")
  case True
  then have "markItem item grid =
      grid[nat (itemRow item) := (grid ! nat (itemRow item))[nat (itemCol item) := True]]"
    by (simp add: markItem_def Let_def)
  moreover have "nat (itemRow item) = row \<longleftrightarrow> itemRow item = int row"
    using True by auto
  moreover have "nat (itemCol item) = col \<longleftrightarrow> itemCol item = int col"
    using True by auto
  ultimately show ?thesis
    using assms by (auto simp: gridShape_def nth_list_update)
next
  case False
  then have "markItem item grid = grid"
    by (auto simp: markItem_def Let_def)
  moreover have "\<not> (itemRow item = int row \<and> itemCol item = int col)"
    using False assms by auto
  ultimately show ?thesis by auto
qed

lemma fold_markItem:
  assumes "gridShape grid"
  shows "gridShape (fold markItem its grid) \<and>
         (\<forall>row < nat maxRows. \<forall>col < nat maxCols.
            fold markItem its grid ! row ! col \<longleftrightarrow>
              grid ! row ! col \<or> (\<exists>item \<in> set its. itemRow item = int row \<and> itemCol item = int col))"
  using assms
proof (induction its arbitrary: grid)
  case Nil
  then show ?case by simp
next
  case (Cons item its)
  have sh: "gridShape (markItem item grid)"
    using Cons.prems by (rule markItem_shape)
  from Cons.IH [OF sh] show ?case
    using markItem_cell [OF Cons.prems] by auto
qed

lemma occupiedGrid_cell:
  assumes "row < nat maxRows" "col < nat maxCols"
  shows "occupiedGrid items ! row ! col \<longleftrightarrow>
           (\<exists>item \<in> set (taskZoneItems items). itemRow item = int row \<and> itemCol item = int col)"
  using fold_markItem [OF emptyGrid_shape, of "taskZoneItems items"] assms emptyGrid_cell
  by (simp add: occupiedGrid_def)

lemma find_filter_conv:
  "List.find P xs = (case filter P xs of [] \<Rightarrow> None | x # _ \<Rightarrow> Some x)"
  by (induction xs) auto

lemma floor_col: "\<lfloor>(60 + real col * 560) / 560\<rfloor> = int col"
  by (simp add: floor_eq_iff field_simps)

lemma gridCells_mem: "(row, col) \<in> set gridCells \<longleftrightarrow> row < nat maxRows \<and> col < nat maxCols"
  by (auto simp: gridCells_def)

lemma gridCells_distinct: "distinct gridCells"
  by (simp add: gridCells_def distinct_product)

lemma firstFree_freeCells:
  "firstFree (occupiedGrid items) = (case freeCells items of [] \<Rightarrow> None | cell # _ \<Rightarrow> Some cell)"
  by (simp add: firstFree_def freeCells_def find_filter_conv)

lemma findTaskZonePosition_free:
  "freeCells items = cell # rest \<Longrightarrow> findTaskZonePosition newItem items = cellPosition cell"
  by (cases cell) (simp add: findTaskZonePosition_def firstFree_freeCells cellPosition_def padding_def)

lemma placedAt_cell:
  assumes "(row, col) \<in> set gridCells"
  shows "inTaskZone (placedAt req (row, col))"
    and "itemRow (placedAt req (row, col)) = int row"
    and "itemCol (placedAt req (row, col)) = int col"
proof -
  from assms have "row < 4" "col < 3"
    by (simp_all add: gridCells_mem maxRows_eq maxCols_eq)
  then have b: "real row \<le> 3" "real col \<le> 2" by simp_all
  show "inTaskZone (placedAt req (row, col))"
    using b by (simp add: inTaskZone_def placedAt_def cellPosition_def TASK_ZONE_def
        colWidth_def rowHeight_def padding_def)
  show "itemRow (placedAt req (row, col)) = int row"
    by (simp add: itemRow_def placedAt_def cellPosition_def TASK_ZONE_def rowHeight_def padding_def)
  show "itemCol (placedAt req (row, col)) = int col"
    by (simp add: itemCol_def placedAt_def cellPosition_def TASK_ZONE_def colWidth_def padding_def
        floor_col)
qed

lemma handlerType_api: "isApiItem (placedAt req cell)"
  by (cases "new_handler req") (simp_all add: isApiItem_def placedAt_def)

lemma placedAt_taskZone:
  assumes "cell \<in> set gridCells"
  shows "taskZoneItems (items @ [placedAt req cell]) = taskZoneItems items @ [placedAt req cell]"
proof -
  obtain row col where c: "cell = (row, col)" by (cases cell)
  show ?thesis
    using placedAt_cell(1) [of row col req] assms c handlerType_api [of req cell]
    by (simp add: taskZoneItems_def)
qed

lemma freeCells_after:
  assumes "freeCells items = cell # rest"
  shows "freeCells (items @ [placedAt req cell]) = rest"
proof -
  have mem: "cell \<in> set gridCells"
    using assms by (metis filter_is_subset freeCells_def list.set_intros(1) subsetD)
  have dist: "distinct (cell # rest)"
    using assms gridCells_distinct by (metis distinct_filter freeCells_def)
  let ?new = "placedAt req cell"
  have occ: "occupiedGrid (items @ [?new]) ! row ! col \<longleftrightarrow>
             occupiedGrid items ! row ! col \<or> (row, col) = cell"
    if "(row, col) \<in> set gridCells" for row col
  proof -
    obtain r c where rc: "cell = (r, c)" by (cases cell)
    have new: "itemRow ?new = int r" "itemCol ?new = int c"
      using placedAt_cell(2,3) [of r c req] mem rc by simp_all
    have "occupiedGrid (items @ [?new]) ! row ! col \<longleftrightarrow>
          (\<exists>item \<in> set (taskZoneItems items @ [?new]). itemRow item = int row \<and> itemCol item = int col)"
      using that by (simp add: occupiedGrid_cell gridCells_mem placedAt_taskZone [OF mem])
    also have "\<dots> \<longleftrightarrow> occupiedGrid items ! row ! col \<or> (int r = int row \<and> int c = int col)"
      using that new by (auto simp: occupiedGrid_cell gridCells_mem)
    finally show ?thesis
      using rc by auto
  qed
  have "freeCells (items @ [?new]) = filter (\<lambda>p. p \<noteq> cell) (freeCells items)"
    unfolding freeCells_def filter_filter
  proof (rule filter_cong [OF refl])
    fix p assume p: "p \<in> set gridCells"
    obtain row col where rc: "p = (row, col)" by (cases p)
    show "(case p of (row, col) \<Rightarrow> \<not> occupiedGrid (items @ [?new]) ! row ! col) \<longleftrightarrow>
          ((case p of (row, col) \<Rightarrow> \<not> occupiedGrid items ! row ! col) \<and> p \<noteq> cell)"
      using occ [of row col] p unfolding rc by simp
  qed
  also have "\<dots> = rest"
    using dist assms by (auto simp: filter_id_conv)
  finally show ?thesis .
qed

lemma createItem_free:
  assumes "freeCells items = cell # rest" "isAuto req"
  shows "createItem server True req items = (Json 201 (placedAt req cell), items @ [placedAt req cell])"
  using assms
  by (auto simp: createItem_def determinePosition_def isAuto_def placedAt_def Let_def
      findTaskZonePosition_free)

text \<open>
  As long as free cells remain and every save succeeds, creations without explicit
  coordinates take the free cells in scan order.
\<close>

lemma createAll_free:
  assumes "length calls \<le> length (freeCells items)"
    and "\<forall>call \<in> set calls. fst call \<and> isAuto (snd call)"
  shows "createAll server calls items =
           (map (Json 201) (map2 placedAt (map snd calls) (freeCells items)),
            items @ map2 placedAt (map snd calls) (freeCells items))"
  using assms
proof (induction calls arbitrary: items)
  case Nil
  then show ?case by simp
next
  case (Cons call calls)
  obtain saved req where call: "call = (saved, req)" by (cases call)
  from Cons.prems obtain cell rest where fc: "freeCells items = cell # rest"
    by (cases "freeCells items") auto
  have saved: "saved" and req_auto: "isAuto req"
    using Cons.prems(2) call by simp_all
  have step: "createItem server True req items = (Json 201 (placedAt req cell), items @ [placedAt req cell])"
    using fc req_auto by (rule createItem_free)
  have rest: "freeCells (items @ [placedAt req cell]) = rest"
    using fc by (rule freeCells_after)
  have "createAll server calls (items @ [placedAt req cell]) =
          (map (Json 201) (map2 placedAt (map snd calls) rest),
           (items @ [placedAt req cell]) @ map2 placedAt (map snd calls) rest)"
    using Cons.prems fc rest Cons.IH [of "items @ [placedAt req cell]"] by simp
  then show ?case
    using step saved call fc by simp
qed

lemma created_nth:
  assumes "length calls \<le> length (freeCells items)"
    and "\<forall>call \<in> set calls. fst call \<and> isAuto (snd call)"
    and "k < length calls"
  shows "fst (createAll server calls items) ! k
           = Json 201 (placedAt (snd (calls ! k)) (freeCells items ! k))"
    and "snd (createAll server calls items) ! (length items + k)
           = placedAt (snd (calls ! k)) (freeCells items ! k)"
  using createAll_free [OF assms(1,2), of server] assms(1,3)
  by (simp_all add: nth_append)

lemma freeCells_empty_zone:
  assumes "taskZoneItems items = []"
  shows "freeCells items = gridCells"
  unfolding freeCells_def
  by (rule iffD2 [OF filter_id_conv]) (auto simp: occupiedGrid_cell gridCells_mem assms)


lemma gridCells_length: "length gridCells = nat (maxRows * maxCols)"
  by (simp add: gridCells_def maxRows_eq maxCols_eq)

lemma gridCells_nth:
  assumes "k < nat (maxRows * maxCols)"
  shows "gridCells ! k = (k div nat maxCols, k mod nat maxCols)"
proof -
  have "k < length [0..<nat maxRows] * length [0..<nat maxCols]"
    using assms by (simp add: maxRows_eq maxCols_eq)
  then have "gridCells ! k = ([0..<nat maxRows] ! (k div nat maxCols), [0..<nat maxCols] ! (k mod nat maxCols))"
    unfolding gridCells_def by (simp add: product_nth)
  moreover have "k div nat maxCols < nat maxRows"
    using assms by (simp add: maxRows_eq maxCols_eq)
  moreover have "k mod nat maxCols < nat maxCols"
    by (simp add: maxCols_eq)
  ultimately show ?thesis by simp
qed



section \<open>Fill order, overflow and overlap\<close>

text \<open>
  Claim C2. Start from a collection whose task zone holds no grid-managed item and run, on
  either server, at most \<open>maxRows * maxCols\<close> creations through the four grid-managed
  handlers, none with explicit coordinates and each one saved. Then the \<open>k\<close>-th creation
  (counting from 0) is answered 201 with an item in row \<open>k div maxCols\<close>, column
  \<open>k mod maxCols\<close>, at \<open>x = zone.x + col * colWidth + padding\<close>,
  \<open>y = zone.y + row * rowHeight + padding\<close>, and that item is what the collection holds.
  With the zone and constants of the code this gives (4260, 60), (4820, 60), (5380, 60) and
  then (4260, 550), as the evaluation that follows the theorem shows.
\<close>

theorem fill_order_row_major:
  assumes "taskZoneItems items = []"
    and "\<forall>call \<in> set calls. fst call \<and> body_x (snd call) = None \<and> body_y (snd call) = None"
    and "length calls \<le> nat (maxRows * maxCols)"
    and "k < length calls"
  shows "fst (createAll server calls items) ! k =
           Json 201
             \<lparr>item_id = new_id (snd (calls ! k)),
              item_type = handlerType (new_handler (snd (calls ! k))),
              item_x = zone_x TASK_ZONE + real (k mod nat maxCols) * colWidth + padding,
              item_y = zone_y TASK_ZONE + real (k div nat maxCols) * rowHeight + padding,
              item_width = new_width (snd (calls ! k)),
              item_height = new_height (snd (calls ! k))\<rparr> \<and>
         snd (createAll server calls items) ! (length items + k) =
             \<lparr>item_id = new_id (snd (calls ! k)),
              item_type = handlerType (new_handler (snd (calls ! k))),
              item_x = zone_x TASK_ZONE + real (k mod nat maxCols) * colWidth + padding,
              item_y = zone_y TASK_ZONE + real (k div nat maxCols) * rowHeight + padding,
              item_width = new_width (snd (calls ! k)),
              item_height = new_height (snd (calls ! k))\<rparr>"
proof -
  have fc: "freeCells items = gridCells"
    using assms(1) by (rule freeCells_empty_zone)
  have len: "length calls \<le> length (freeCells items)"
    using assms(3) fc gridCells_length by simp
  have ok: "\<forall>call \<in> set calls. fst call \<and> isAuto (snd call)"
    using assms(2) by (simp add: isAuto_def)
  have cell: "freeCells items ! k = (k div nat maxCols, k mod nat maxCols)"
    using assms(3,4) fc gridCells_nth [of k] by simp
  show ?thesis
    using created_nth [OF len ok assms(4), of server]
    by (simp add: cell placedAt_def cellPosition_def)
qed

text \<open>
  Todo, agent, lab result and enhanced todo created in turn on the Redis-backed server,
  into a collection that holds only the default [\<lparr>item_id = ''ehr-item-1'', item_type = ''ehr'', item_x = 3200, item_y = 3200,
       item_width = 550, item_height = 450\<rparr>] item (which lies outside the zone): the
  positions are those of the example scenario.
\<close>

theorem fill_order_row_major_witness:
  "taskZoneItems
     [\<lparr>item_id = ''ehr-item-1'', item_type = ''ehr'', item_x = 3200, item_y = 3200,
       item_width = 550, item_height = 450\<rparr>] = [] \<and>
   (let out = createAll RedisServer
     [(True, \<lparr>new_handler = Todos, new_id = ''a'', body_x = None, body_y = None, new_width = 420, new_height = 200\<rparr>),
      (True, \<lparr>new_handler = Agents, new_id = ''b'', body_x = None, body_y = None, new_width = 520, new_height = 180\<rparr>),
      (True, \<lparr>new_handler = LabResults, new_id = ''c'', body_x = None, body_y = None, new_width = 400, new_height = 280\<rparr>),
      (True, \<lparr>new_handler = EnhancedTodo, new_id = ''d'', body_x = None, body_y = None, new_width = 450, new_height = 400\<rparr>)]
     [\<lparr>item_id = ''ehr-item-1'', item_type = ''ehr'', item_x = 3200, item_y = 3200,
       item_width = 550, item_height = 450\<rparr>]
    in [fst out ! 0, fst out ! 1, fst out ! 2, fst out ! 3]) =
     [Json 201 \<lparr>item_id = ''a'', item_type = ''todo'', item_x = 4260, item_y = 60, item_width = 420, item_height = 200\<rparr>,
      Json 201 \<lparr>item_id = ''b'', item_type = ''agent'', item_x = 4820, item_y = 60, item_width = 520, item_height = 180\<rparr>,
      Json 201 \<lparr>item_id = ''c'', item_type = ''lab-result'', item_x = 5380, item_y = 60, item_width = 400, item_height = 280\<rparr>,
      Json 201 \<lparr>item_id = ''d'', item_type = ''todo'', item_x = 4260, item_y = 550, item_width = 450, item_height = 400\<rparr>]"
proof -
  let ?items = "[\<lparr>item_id = ''ehr-item-1'', item_type = ''ehr'', item_x = 3200, item_y = 3200,
       item_width = 550, item_height = 450\<rparr>]"
  let ?calls = "[(True, \<lparr>new_handler = Todos, new_id = ''a'', body_x = None, body_y = None, new_width = 420, new_height = 200\<rparr>),
      (True, \<lparr>new_handler = Agents, new_id = ''b'', body_x = None, body_y = None, new_width = 520, new_height = 180\<rparr>),
      (True, \<lparr>new_handler = LabResults, new_id = ''c'', body_x = None, body_y = None, new_width = 400, new_height = 280\<rparr>),
      (True, \<lparr>new_handler = EnhancedTodo, new_id = ''d'', body_x = None, body_y = None, new_width = 450, new_height = 400\<rparr>)]"
  have h1: "taskZoneItems ?items = []"
    by (simp add: taskZoneItems_def isApiItem_def)
  have h2: "\<forall>call \<in> set ?calls. fst call \<and> body_x (snd call) = None \<and> body_y (snd call) = None"
    by simp
  have h3: "length ?calls \<le> nat (maxRows * maxCols)"
    by (simp add: maxRows_eq maxCols_eq)
  define out where "out = createAll RedisServer ?calls ?items"
  note t = fill_order_row_major [OF h1 h2 h3, of _ RedisServer, folded out_def, THEN conjunct1]
  note c = maxCols_eq TASK_ZONE_def colWidth_def rowHeight_def padding_def
  have "fst out ! 0 = Json 201 \<lparr>item_id = ''a'', item_type = ''todo'', item_x = 4260, item_y = 60, item_width = 420, item_height = 200\<rparr>"
    using t [of 0] by (simp add: c)
  moreover have "fst out ! 1 = Json 201 \<lparr>item_id = ''b'', item_type = ''agent'', item_x = 4820, item_y = 60, item_width = 520, item_height = 180\<rparr>"
    using t [of 1] by (simp add: c)
  moreover have "fst out ! 2 = Json 201 \<lparr>item_id = ''c'', item_type = ''lab-result'', item_x = 5380, item_y = 60, item_width = 400, item_height = 280\<rparr>"
    using t [of 2] by (simp add: c)
  moreover have "fst out ! 3 = Json 201 \<lparr>item_id = ''d'', item_type = ''todo'', item_x = 4260, item_y = 550, item_width = 450, item_height = 400\<rparr>"
    using t [of 3] by (simp add: c)
  ultimately show ?thesis
    using h1 unfolding Let_def out_def [symmetric] by simp
qed

text \<open>
  Claim C3. The allocator is a total function with no failing branch. When every cell of the
  \<open>maxRows \<times> maxCols\<close> grid is marked by one of the filtered items, it returns the vertical
  stack position \<open>x = zone.x + padding\<close>,
  \<open>y = zone.y + padding + count(filtered) * (rowHeight + padding)\<close>.
\<close>

theorem allocator_overflow_fallback:
  assumes "\<forall>row < nat maxRows. \<forall>col < nat maxCols.
             \<exists>item \<in> set (taskZoneItems existingItems).
               itemRow item = int row \<and> itemCol item = int col"
  shows "findTaskZonePosition newItem existingItems =
           \<lparr>pos_x = zone_x TASK_ZONE + padding,
            pos_y = zone_y TASK_ZONE + padding
                    + real (length (taskZoneItems existingItems)) * (rowHeight + padding)\<rparr>"
proof -
  have "freeCells existingItems = []"
    unfolding freeCells_def filter_empty_conv
    using assms by (auto simp: gridCells_mem occupiedGrid_cell)
  then show ?thesis
    by (simp add: findTaskZonePosition_def firstFree_freeCells padding_def)
qed

text \<open>
  Twelve todo items, one per cell: the next position is (4260, 6660), far below the bottom
  edge of the zone at \<open>y = 2100\<close>.
\<close>

theorem allocator_overflow_fallback_witness:
  "findTaskZonePosition \<lparr>temp_type = ''todo'', temp_width = 420, temp_height = 200\<rparr>
     (map (\<lambda>(row, col). \<lparr>item_id = ''t'', item_type = ''todo'',
                           item_x = 4260 + 560 * real col, item_y = 60 + 490 * real row,
                           item_width = 420, item_height = 200\<rparr>)
        (List.product [0, 1, 2, 3] [0, 1, 2]))
   = \<lparr>pos_x = 4260, pos_y = 6660\<rparr>"
proof -
  let ?items = "map (\<lambda>(row, col). \<lparr>item_id = ''t'', item_type = ''todo'',
                           item_x = 4260 + 560 * real col, item_y = 60 + 490 * real row,
                           item_width = 420, item_height = 200\<rparr>)
        (List.product [0, 1, 2, 3] [0, 1, 2])"
  have tz: "taskZoneItems ?items = ?items"
    by (simp add: taskZoneItems_def inTaskZone_def isApiItem_def TASK_ZONE_def)
  have h: "\<forall>row < nat maxRows. \<forall>col < nat maxCols.
             \<exists>item \<in> set (taskZoneItems ?items).
               itemRow item = int row \<and> itemCol item = int col"
    unfolding tz
    by (simp add: maxRows_eq maxCols_eq eval_nat_numeral All_less_Suc itemRow_def itemCol_def
        TASK_ZONE_def colWidth_def rowHeight_def)
  from allocator_overflow_fallback [OF h] tz show ?thesis
    by (simp add: TASK_ZONE_def padding_def rowHeight_def)
qed

lemma gridCells_first: "\<exists>rest. gridCells = (0, 0) # rest \<and> length rest = 11"
proof -
  have len: "length gridCells = 12"
    by (simp add: gridCells_length maxRows_eq maxCols_eq)
  have first: "gridCells ! 0 = (0, 0)"
    using gridCells_nth [of 0] by (simp add: maxRows_eq maxCols_eq)
  from len obtain cell rest where cells: "gridCells = cell # rest"
    by (cases gridCells) auto
  from first len show ?thesis
    unfolding cells by simp
qed

text \<open>
  Without a successful save the Redis-backed server stores nothing, so every creation is
  allocated against the same collection: two unsaved creations into an empty collection
  are both answered with the position of the first cell.
\<close>

lemma unsaved_creations_repeat:
  "createAll RedisServer
     [(False, \<lparr>new_handler = Todos, new_id = ''a'', body_x = None, body_y = None,
                new_width = 420, new_height = 200\<rparr>),
      (False, \<lparr>new_handler = Agents, new_id = ''b'', body_x = None, body_y = None,
                new_width = 520, new_height = 180\<rparr>)] []
   = ([Json 201 \<lparr>item_id = ''a'', item_type = ''todo'', item_x = 4260, item_y = 60,
                  item_width = 420, item_height = 200\<rparr>,
       Json 201 \<lparr>item_id = ''b'', item_type = ''agent'', item_x = 4260, item_y = 60,
                  item_width = 520, item_height = 180\<rparr>], [])"
proof -
  obtain rest where "freeCells [] = (0, 0) # rest"
    using gridCells_first freeCells_empty_zone [of "[]"] by (auto simp: taskZoneItems_def)
  then have "findTaskZonePosition newItem [] = cellPosition (0, 0)" for newItem
    by (rule findTaskZonePosition_free)
  then show ?thesis
    by (simp add: createItem_def determinePosition_def cellPosition_def Let_def
        TASK_ZONE_def colWidth_def rowHeight_def padding_def)
qed




section \<open>The camera animation\<close>

lemma easeInOut_one: "easeInOut 1 = 1"
  by (simp add: easeInOut_def)

lemma clampZoom_pos: "0 < clampZoom z"
  by (simp add: clampZoom_def max_def)

lemma animate_first_boundary:
  assumes "0 < an_duration a" and "vp_zoom (an_start a) \<noteq> 0"
  shows "vp_zoom (animate a (an_duration a / 3)) = clampZoom (vp_zoom (an_start a) * 0.3)"
    and "viewportCenterWorld (an_containerWidth a) (an_containerHeight a) (animate a (an_duration a / 3))
         = viewportCenterWorld (an_containerWidth a) (an_containerHeight a) (an_start a)"
proof -
  have z: "clampZoom (vp_zoom (an_start a) * 0.3) \<noteq> 0"
    using clampZoom_pos [of "vp_zoom (an_start a) * 0.3"] by simp
  show "vp_zoom (animate a (an_duration a / 3)) = clampZoom (vp_zoom (an_start a) * 0.3)"
    using assms by (simp add: animate_def Let_def easeInOut_one)
  show "viewportCenterWorld (an_containerWidth a) (an_containerHeight a) (animate a (an_duration a / 3))
         = viewportCenterWorld (an_containerWidth a) (an_containerHeight a) (an_start a)"
    using z assms by (simp add: animate_def Let_def easeInOut_one viewportCenterWorld_def)
qed

lemma animate_second_boundary:
  assumes "0 < an_duration a"
  shows "viewportCenterWorld (an_containerWidth a) (an_containerHeight a) (animate a (2 * an_duration a / 3))
         = (item_x (an_item a) + item_width (an_item a) / 2,
            item_y (an_item a) + item_height (an_item a) / 2)"
proof -
  have z: "clampZoom (vp_zoom (an_start a) * 0.3) \<noteq> 0"
    using clampZoom_pos [of "vp_zoom (an_start a) * 0.3"] by simp
  show ?thesis
    using z assms by (simp add: animate_def Let_def easeInOut_one viewportCenterWorld_def)
qed

lemma animate_final_boundary:
  assumes "0 < an_duration a"
  shows "vp_zoom (animate a (an_duration a)) = an_finalZoom a"
    and "an_finalZoom a \<noteq> 0 \<Longrightarrow>
         viewportCenterWorld (an_containerWidth a) (an_containerHeight a) (animate a (an_duration a))
         = (item_x (an_item a) + item_width (an_item a) / 2,
            item_y (an_item a) + item_height (an_item a) / 2)"
proof -
  show "vp_zoom (animate a (an_duration a)) = an_finalZoom a"
    using assms by (simp add: animate_def Let_def easeInOut_one)
  show "an_finalZoom a \<noteq> 0 \<Longrightarrow>
         viewportCenterWorld (an_containerWidth a) (an_containerHeight a) (animate a (an_duration a))
         = (item_x (an_item a) + item_width (an_item a) / 2,
            item_y (an_item a) + item_height (an_item a) / 2)"
    using assms by (simp add: animate_def Let_def easeInOut_one viewportCenterWorld_def)
qed

text \<open>
  Claim C1, as stated, fails at the last boundary: the frame at \<open>elapsed = duration\<close>
  writes \<open>finalZoom\<close> itself, and \<^verbatim>\<open>clampZoom\<close> is applied to the zoom-out level only. With
  \<open>finalZoom = 5\<close> and \<open>duration = 3000\<close> the zoom at 3000 ms is 5, while clamping to
  \<open>[0.1, 3]\<close> would give 3.
\<close>

theorem final_zoom_not_clamped:
  "cl_animations (centerOnItem ''a'' (Some 5) (Some 3000)
      \<lparr>cl_items = [\<lparr>item_id = ''a'', item_type = ''todo'', item_x = 100, item_y = 100,
                     item_width = 200, item_height = 200\<rparr>],
       cl_selectedItemId = None, cl_viewport = \<lparr>vp_x = 0, vp_y = 0, vp_zoom = 1\<rparr>,
       cl_container = Some \<lparr>clientWidth = 800, clientHeight = 600\<rparr>, cl_centerOnItem = True,
       cl_animations = [], cl_timers = [], cl_console = []\<rparr>)
   = [\<lparr>an_start = \<lparr>vp_x = 0, vp_y = 0, vp_zoom = 1\<rparr>,
       an_containerWidth = 800, an_containerHeight = 600,
       an_item = \<lparr>item_id = ''a'', item_type = ''todo'', item_x = 100, item_y = 100,
                   item_width = 200, item_height = 200\<rparr>,
       an_finalZoom = 5, an_duration = 3000\<rparr>] \<and>
   vp_zoom (animate
      \<lparr>an_start = \<lparr>vp_x = 0, vp_y = 0, vp_zoom = 1\<rparr>,
       an_containerWidth = 800, an_containerHeight = 600,
       an_item = \<lparr>item_id = ''a'', item_type = ''todo'', item_x = 100, item_y = 100,
                   item_width = 200, item_height = 200\<rparr>,
       an_finalZoom = 5, an_duration = 3000\<rparr> 3000) = 5 \<and>
   clampZoom 5 = 3"
  by (simp add: centerOnItem_def animate_def easeInOut_def clampZoom_def Let_def)

text \<open>
  Claim C1, amended. Let \<^verbatim>\<open>centerOnItem\<close> be called for an item of the collection, with a
  mounted container, a positive duration \<open>D\<close>, a start zoom other than 0 and any
  \<open>finalZoom\<close>. Then the call starts one frame loop, and its frame
  \<^item> at \<open>D / 3\<close> has zoom \<open>clampZoom (0.3 * startZoom)\<close> and shows at the middle of the
    container the world point that was there before the call;
  \<^item> at \<open>2 * D / 3\<close> shows the centre of the item, \<open>(x + width / 2, y + height / 2)\<close>, at
    the middle of the container;
  \<^item> at \<open>D\<close> has zoom \<open>finalZoom\<close> itself, not its clamped value, and, when \<open>finalZoom\<close>
    is not 0, still shows the centre of the item at the middle of the container.
  Numbers are reals here, so the equalities are exact; in the running code they hold
  within floating tolerance.
\<close>

theorem camera_phase_boundaries:
  assumes "List.find (\<lambda>i. item_id i = itemId) (cl_items c) = Some item"
    and "cl_container c = Some box"
    and "0 < D"
    and "vp_zoom (cl_viewport c) \<noteq> 0"
  shows "\<exists>a. cl_animations (centerOnItem itemId (Some finalZoom) (Some D) c) = cl_animations c @ [a] \<and>
           vp_zoom (animate a (D / 3)) = clampZoom (0.3 * vp_zoom (cl_viewport c)) \<and>
           viewportCenterWorld (clientWidth box) (clientHeight box) (animate a (D / 3))
             = viewportCenterWorld (clientWidth box) (clientHeight box) (cl_viewport c) \<and>
           viewportCenterWorld (clientWidth box) (clientHeight box) (animate a (2 * D / 3))
             = (item_x item + item_width item / 2, item_y item + item_height item / 2) \<and>
           vp_zoom (animate a D) = finalZoom \<and>
           (finalZoom \<noteq> 0 \<longrightarrow>
              viewportCenterWorld (clientWidth box) (clientHeight box) (animate a D)
                = (item_x item + item_width item / 2, item_y item + item_height item / 2))"
proof -
  let ?a = "\<lparr>an_start = cl_viewport c, an_containerWidth = clientWidth box,
             an_containerHeight = clientHeight box, an_item = item,
             an_finalZoom = finalZoom, an_duration = D\<rparr>"
  have started: "cl_animations (centerOnItem itemId (Some finalZoom) (Some D) c) = cl_animations c @ [?a]"
    using assms(1,2) by (simp add: centerOnItem_def)
  have d: "0 < an_duration ?a" and z: "vp_zoom (an_start ?a) \<noteq> 0"
    using assms(3,4) by simp_all
  show ?thesis
    using started animate_first_boundary [OF d z] animate_second_boundary [OF d]
      animate_final_boundary(1) [OF d] animate_final_boundary(2) [OF d]
    by (intro exI [of _ ?a]) (simp add: mult.commute)
qed

text \<open>
  An 800 by 600 container at the identity viewport and an item with centre (200, 200),
  focused with zoom 5 over three seconds: the last frame has zoom 5 with the item centred.
\<close>

theorem camera_phase_boundaries_witness:
  "\<exists>a. cl_animations (centerOnItem ''a'' (Some 5) (Some 3000)
      \<lparr>cl_items = [\<lparr>item_id = ''a'', item_type = ''todo'', item_x = 100, item_y = 100,
                     item_width = 200, item_height = 200\<rparr>],
       cl_selectedItemId = None, cl_viewport = \<lparr>vp_x = 0, vp_y = 0, vp_zoom = 1\<rparr>,
       cl_container = Some \<lparr>clientWidth = 800, clientHeight = 600\<rparr>, cl_centerOnItem = True,
       cl_animations = [], cl_timers = [], cl_console = []\<rparr>) = [a] \<and>
      vp_zoom (animate a 1000) = 3/10 \<and>
      viewportCenterWorld 800 600 (animate a 1000) = (400, 300) \<and>
      viewportCenterWorld 800 600 (animate a 2000) = (200, 200) \<and>
      vp_zoom (animate a 3000) = 5 \<and>
      viewportCenterWorld 800 600 (animate a 3000) = (200, 200)"
proof -
  let ?item = "\<lparr>item_id = ''a'', item_type = ''todo'', item_x = 100, item_y = 100,
                item_width = 200, item_height = 200\<rparr>"
  let ?c = "\<lparr>cl_items = [?item],
       cl_selectedItemId = None, cl_viewport = \<lparr>vp_x = 0, vp_y = 0, vp_zoom = 1\<rparr>,
       cl_container = Some \<lparr>clientWidth = 800, clientHeight = 600\<rparr>, cl_centerOnItem = True,
       cl_animations = [], cl_timers = [], cl_console = []\<rparr>"
  have h1: "List.find (\<lambda>i. item_id i = ''a'') (cl_items ?c) = Some ?item"
    by simp
  have h2: "cl_container ?c = Some \<lparr>clientWidth = 800, clientHeight = 600\<rparr>"
    by simp
  have h3: "(0::real) < 3000" and h4: "vp_zoom (cl_viewport ?c) \<noteq> 0"
    by simp_all
  from camera_phase_boundaries [OF h1 h2 h3 h4, of 5] show ?thesis
    by (simp add: clampZoom_def viewportCenterWorld_def)
qed

section \<open>Focusing on a missing item\<close>

lemma find_None_ids: "(\<forall>i \<in> set xs. item_id i \<noteq> tid) \<Longrightarrow> List.find (\<lambda>i. item_id i = tid) xs = None"
  by (simp add: find_None_iff)

text \<open>
  Claim C7. When no item of the collection has the requested id, \<^verbatim>\<open>centerOnItem\<close> returns
  the client unchanged (it starts no frame loop, so nothing writes the viewport), and
  \<^verbatim>\<open>handleFocusRequest\<close> changes nothing but the console, to which it writes its two
  tracing lines and two error lines: viewport, selection, timers and frame loops stay as
  they were. Neither function has a failing branch.
\<close>

theorem focus_missing_item_noop:
  assumes "\<forall>i \<in> set (cl_items c). item_id i \<noteq> itemId"
  shows "centerOnItem itemId finalZoom duration c = c \<and>
         (strOr (fr_objectId request) (fr_itemId request) = Some itemId \<longrightarrow>
            handleFocusRequest request c =
              c\<lparr>cl_console := cl_console c @
                   [ConsoleLog ''Focus request received:'', ConsoleLog ''Available items:'',
                    ConsoleError ''Item not found:'', ConsoleError ''Available item IDs:'']\<rparr> \<and>
            cl_viewport (handleFocusRequest request c) = cl_viewport c \<and>
            cl_animations (handleFocusRequest request c) = cl_animations c)"
proof -
  have f: "List.find (\<lambda>i. item_id i = itemId) (cl_items c) = None"
    using assms by (rule find_None_ids)
  have "centerOnItem itemId finalZoom duration c = c"
    by (simp add: centerOnItem_def f)
  moreover have "handleFocusRequest request c =
              c\<lparr>cl_console := cl_console c @
                   [ConsoleLog ''Focus request received:'', ConsoleLog ''Available items:'',
                    ConsoleError ''Item not found:'', ConsoleError ''Available item IDs:'']\<rparr>"
    if "strOr (fr_objectId request) (fr_itemId request) = Some itemId"
    using that f by (simp add: handleFocusRequest_def consoleWrite_def)
  ultimately show ?thesis by simp
qed

text \<open>A focus request and a direct call for the id \<open>b\<close> on a board that holds only \<open>a\<close>.\<close>

theorem focus_missing_item_noop_witness:
  "cl_viewport (handleFocusRequest
      \<lparr>fr_objectId = Some ''b'', fr_itemId = Some ''b'', fr_subElement = None, fr_focusOptions = None\<rparr>
      \<lparr>cl_items = [\<lparr>item_id = ''a'', item_type = ''todo'', item_x = 100, item_y = 100,
                     item_width = 200, item_height = 200\<rparr>],
       cl_selectedItemId = None, cl_viewport = \<lparr>vp_x = 0, vp_y = 0, vp_zoom = 1\<rparr>,
       cl_container = Some \<lparr>clientWidth = 800, clientHeight = 600\<rparr>, cl_centerOnItem = True,
       cl_animations = [], cl_timers = [], cl_console = []\<rparr>)
   = \<lparr>vp_x = 0, vp_y = 0, vp_zoom = 1\<rparr> \<and>
   cl_animations (centerOnItem ''b'' (Some 1.5) (Some 3000)
      \<lparr>cl_items = [\<lparr>item_id = ''a'', item_type = ''todo'', item_x = 100, item_y = 100,
                     item_width = 200, item_height = 200\<rparr>],
       cl_selectedItemId = None, cl_viewport = \<lparr>vp_x = 0, vp_y = 0, vp_zoom = 1\<rparr>,
       cl_container = Some \<lparr>clientWidth = 800, clientHeight = 600\<rparr>, cl_centerOnItem = True,
       cl_animations = [], cl_timers = [], cl_console = []\<rparr>)
   = []"
proof -
  let ?c = "\<lparr>cl_items = [\<lparr>item_id = ''a'', item_type = ''todo'', item_x = 100, item_y = 100,
                     item_width = 200, item_height = 200\<rparr>],
       cl_selectedItemId = None, cl_viewport = \<lparr>vp_x = 0, vp_y = 0, vp_zoom = 1\<rparr>,
       cl_container = Some \<lparr>clientWidth = 800, clientHeight = 600\<rparr>, cl_centerOnItem = True,
       cl_animations = [], cl_timers = [], cl_console = []\<rparr>"
  let ?r = "\<lparr>fr_objectId = Some ''b'', fr_itemId = Some ''b'', fr_subElement = None, fr_focusOptions = None\<rparr>"
  have h: "\<forall>i \<in> set (cl_items ?c). item_id i \<noteq> ''b''"
    by simp
  have t: "strOr (fr_objectId ?r) (fr_itemId ?r) = Some ''b''"
    by (simp add: strOr_def truthy_def)
  from focus_missing_item_noop [OF h, of "Some 1.5" "Some 3000" ?r] t show ?thesis
    by simp
qed

section \<open>Timing of the sub-element highlight\<close>

text \<open>
  Claim C8 does not hold of \<^verbatim>\<open>handleFocusRequest\<close>: for a request with a sub-element and a
  duration of 3000 ms on an existing item, the highlight is scheduled 100 ms after the
  request, while the frame loop it starts runs for 3000 ms; the highlight is then removed
  after the very duration of the animation, not after a fixed time.
\<close>

theorem highlight_before_animation_ends:
  "(let c = handleFocusRequest
      \<lparr>fr_objectId = Some ''a'', fr_itemId = Some ''a'', fr_subElement = Some ''task-1'',
        fr_focusOptions = Some \<lparr>fo_zoom = Some 1.5, fo_duration = Some 3000\<rparr>\<rparr>
      \<lparr>cl_items = [\<lparr>item_id = ''a'', item_type = ''todo'', item_x = 100, item_y = 100,
                     item_width = 200, item_height = 200\<rparr>],
       cl_selectedItemId = None, cl_viewport = \<lparr>vp_x = 0, vp_y = 0, vp_zoom = 1\<rparr>,
       cl_container = Some \<lparr>clientWidth = 800, clientHeight = 600\<rparr>, cl_centerOnItem = True,
       cl_animations = [], cl_timers = [], cl_console = []\<rparr>
    in (cl_timers c, map an_duration (cl_animations c)))
   = ([\<lparr>tm_delay = 100, tm_action = Highlight ''task-1'' 3000\<rparr>], [3000])"
  by (simp add: handleFocusRequest_def consoleWrite_def strOr_def truthy_def numOr_def
      focusOnItem_def setTimeout_def centerOnItem_def Let_def)

section \<open>Explicit coordinates at creation\<close>

text \<open>
  Claim C5 does not hold of \<^verbatim>\<open>POST /api/board-items\<close>: the handler takes \<^verbatim>\<open>x || random\<close>, so
  explicit coordinates \<open>x = 0\<close>, \<open>y = 0\<close> are replaced by random ones. With the draws 1/2
  and 1/4 the stored position is (4100, 1850).
\<close>

theorem board_item_zero_coordinates_replaced:
  "post_board_items True ''item-1'' (1/2) (1/4)
     \<lparr>ib_type = Some ''sticky'', ib_componentType = None, ib_x = Some 0, ib_y = Some 0,
      ib_width = None, ib_height = None\<rparr> []
   = (Json 201 \<lparr>item_id = ''item-1'', item_type = ''sticky'', item_x = 4100, item_y = 1850,
                 item_width = 150, item_height = 150\<rparr>,
      [\<lparr>item_id = ''item-1'', item_type = ''sticky'', item_x = 4100, item_y = 1850,
                 item_width = 150, item_height = 150\<rparr>])"
  by (simp add: post_board_items_def truthy_def numOr_def Let_def)

section \<open>The focus endpoint\<close>

text \<open>
  Claim C6. \<^verbatim>\<open>POST /api/focus\<close> answers 400 exactly when neither \<^verbatim>\<open>itemId\<close> nor
  \<^verbatim>\<open>objectId\<close> holds a non-empty identifier, and then broadcasts nothing. Otherwise it
  answers 200 with \<^verbatim>\<open>{success, message, itemId, subElement, focusOptions}\<close>, where
  \<^verbatim>\<open>itemId\<close> is the first non-empty identifier (\<^verbatim>\<open>itemId\<close> before \<^verbatim>\<open>objectId\<close>), and hands
  exactly one event to the broadcaster, carrying that identifier under both names.
\<close>

theorem focus_endpoint_contract:
  "(statusCode (fst (post_focus now body bus)) = 400 \<longleftrightarrow>
      \<not> truthy (fb_itemId body) \<and> \<not> truthy (fb_objectId body)) \<and>
   (\<not> truthy (fb_itemId body) \<and> \<not> truthy (fb_objectId body) \<longrightarrow>
      post_focus now body bus = (Error 400 ''objectId or itemId is required'', bus)) \<and>
   (truthy (fb_itemId body) \<or> truthy (fb_objectId body) \<longrightarrow>
      (let targetId = (if truthy (fb_itemId body) then the (fb_itemId body)
                       else the (fb_objectId body));
           options = defaultOptions (fb_subElement body)
                       ++ (case fb_focusOptions body of None \<Rightarrow> Map.empty | Some m \<Rightarrow> m)
       in post_focus now body bus =
            (Json 200 \<lparr>ack_success = True, ack_message = ''Focus event broadcasted'',
                       ack_itemId = targetId, ack_subElement = orNull (fb_subElement body),
                       ack_focusOptions = options\<rparr>,
             bus @ [\<lparr>ev_event = ''focus'', ev_objectId = targetId, ev_itemId = targetId,
                     ev_subElement = orNull (fb_subElement body),
                     ev_focusOptions = options, ev_timestamp = now\<rparr>])))"
  by (auto simp: post_focus_def strOr_def Let_def)

text \<open>A request with an \<^verbatim>\<open>itemId\<close>, and one whose only identifier is the empty string.\<close>

theorem focus_endpoint_contract_witness:
  "statusCode (fst (post_focus ''2025-01-01T00:00:00.000Z''
      \<lparr>fb_objectId = None, fb_itemId = Some ''item-1'', fb_subElement = None,
        fb_focusOptions = None\<rparr> [])) = 200 \<and>
   map (\<lambda>e. (ev_objectId e, ev_itemId e)) (snd (post_focus ''2025-01-01T00:00:00.000Z''
      \<lparr>fb_objectId = None, fb_itemId = Some ''item-1'', fb_subElement = None,
        fb_focusOptions = None\<rparr> [])) = [(''item-1'', ''item-1'')] \<and>
   post_focus ''2025-01-01T00:00:00.000Z''
      \<lparr>fb_objectId = None, fb_itemId = Some '''', fb_subElement = None,
        fb_focusOptions = None\<rparr> [] = (Error 400 ''objectId or itemId is required'', [])"
proof -
  let ?ok = "\<lparr>fb_objectId = None, fb_itemId = Some ''item-1'', fb_subElement = None,
        fb_focusOptions = None\<rparr>"
  let ?bad = "\<lparr>fb_objectId = None, fb_itemId = Some '''', fb_subElement = None,
        fb_focusOptions = None\<rparr>"
  have t: "truthy (fb_itemId ?ok)" "\<not> truthy (fb_itemId ?bad)" "\<not> truthy (fb_objectId ?bad)"
    by (simp_all add: truthy_def)
  from focus_endpoint_contract [of "''2025-01-01T00:00:00.000Z''" ?ok "[]"]
       focus_endpoint_contract [of "''2025-01-01T00:00:00.000Z''" ?bad "[]"] t
  show ?thesis
    by (simp add: Let_def)
qed

section \<open>Clearing the task zone\<close>

text \<open>
  Claim C9. When the write succeeds, \<^verbatim>\<open>DELETE /api/task-zone\<close> stores the collection
  without the items that are both inside the zone rectangle and of type agent, todo or
  lab-result, every other item kept as it is and in its place, and reports how many items
  it removed and how many remain.
\<close>

theorem task_zone_delete_frame:
  "delete_task_zone True items =
     (Json 200 \<lparr>cleared_success = True,
                removedCount = int (length (filter (\<lambda>item. inTaskZone item \<and> isApiItem item) items)),
                remainingCount = int (length (filter (\<lambda>item. \<not> (inTaskZone item \<and> isApiItem item)) items))\<rparr>,
      filter (\<lambda>item. \<not> (inTaskZone item \<and> isApiItem item)) items)"
proof -
  have "length items = length (filter (\<lambda>item. inTaskZone item \<and> isApiItem item) items)
        + length (filter (\<lambda>item. \<not> (inTaskZone item \<and> isApiItem item)) items)"
    by (rule sum_length_filter_compl [symmetric])
  then show ?thesis
    by (simp add: delete_task_zone_def Let_def)
qed

section \<open>Updating one item\<close>

lemma findIndex_None: "findIndex P xs = None \<longleftrightarrow> (\<forall>x \<in> set xs. \<not> P x)"
  by (induction xs) auto

lemma findIndex_Some:
  "findIndex P xs = Some i \<Longrightarrow> i < length xs \<and> P (xs ! i) \<and> (\<forall>j < i. \<not> P (xs ! j))"
proof (induction xs arbitrary: i)
  case Nil
  then show ?case by simp
next
  case (Cons x xs)
  show ?case
  proof (cases "P x")
    case True
    with Cons.prems show ?thesis by simp
  next
    case False
    with Cons.prems obtain k where k: "findIndex P xs = Some k" "i = Suc k"
      by auto
    from Cons.IH [OF k(1)] False k(2) show ?thesis
      by (auto simp: less_Suc_eq_0_disj)
  qed
qed

text \<open>
  Claim C10. \<^verbatim>\<open>PUT /api/board-items/:id\<close>, on both servers: when no item has the id, the
  answer is 404 and the collection (and the source data file) is left as it was. When some
  item has it and the write succeeds, the first such item is replaced by its shallow merge
  with the request body, \<^verbatim>\<open>updatedAt\<close> set to the current time; the collection keeps its
  length and every other item; the merged item is the body of the 200 answer.
\<close>

theorem put_board_item_frame:
  "((\<forall>item \<in> set items. \<not> hasId itemId item) \<longrightarrow>
      put_board_item writeOk sourceOk itemId updates now items sourceItems
        = (Error 404 ''Board item not found'', items, sourceItems) \<and>
      put_board_item_redis saved itemId updates now items
        = (Error 404 ''Board item not found'', items)) \<and>
   ((\<exists>item \<in> set items. hasId itemId item) \<longrightarrow>
      (\<exists>i < length items.
         hasId itemId (items ! i) \<and> (\<forall>j < i. \<not> hasId itemId (items ! j)) \<and>
         fst (put_board_item True sourceOk itemId updates now items sourceItems)
           = Json 200 ((items ! i ++ updates)(''updatedAt'' \<mapsto> JStr now)) \<and>
         fst (snd (put_board_item True sourceOk itemId updates now items sourceItems))
           = items[i := (items ! i ++ updates)(''updatedAt'' \<mapsto> JStr now)] \<and>
         length (fst (snd (put_board_item True sourceOk itemId updates now items sourceItems)))
           = length items \<and>
         (\<forall>j < length items. j \<noteq> i \<longrightarrow>
            fst (snd (put_board_item True sourceOk itemId updates now items sourceItems)) ! j
              = items ! j) \<and>
         put_board_item_redis True itemId updates now items
           = (Json 200 ((items ! i ++ updates)(''updatedAt'' \<mapsto> JStr now)),
              items[i := (items ! i ++ updates)(''updatedAt'' \<mapsto> JStr now)])))"
proof (intro conjI impI)
  assume "\<forall>item \<in> set items. \<not> hasId itemId item"
  then have n: "findIndex (hasId itemId) items = None"
    by (simp add: findIndex_None)
  show "put_board_item writeOk sourceOk itemId updates now items sourceItems
        = (Error 404 ''Board item not found'', items, sourceItems)"
    by (simp add: put_board_item_def n)
  show "put_board_item_redis saved itemId updates now items
        = (Error 404 ''Board item not found'', items)"
    by (simp add: put_board_item_redis_def n)
next
  assume "\<exists>item \<in> set items. hasId itemId item"
  then obtain i where i: "findIndex (hasId itemId) items = Some i"
    using findIndex_None [of "hasId itemId" items] by (cases "findIndex (hasId itemId) items") auto
  from findIndex_Some [OF i]
  have b: "i < length items" "hasId itemId (items ! i)" "\<forall>j < i. \<not> hasId itemId (items ! j)"
    by simp_all
  show "\<exists>i < length items.
         hasId itemId (items ! i) \<and> (\<forall>j < i. \<not> hasId itemId (items ! j)) \<and>
         fst (put_board_item True sourceOk itemId updates now items sourceItems)
           = Json 200 ((items ! i ++ updates)(''updatedAt'' \<mapsto> JStr now)) \<and>
         fst (snd (put_board_item True sourceOk itemId updates now items sourceItems))
           = items[i := (items ! i ++ updates)(''updatedAt'' \<mapsto> JStr now)] \<and>
         length (fst (snd (put_board_item True sourceOk itemId updates now items sourceItems)))
           = length items \<and>
         (\<forall>j < length items. j \<noteq> i \<longrightarrow>
            fst (snd (put_board_item True sourceOk itemId updates now items sourceItems)) ! j
              = items ! j) \<and>
         put_board_item_redis True itemId updates now items
           = (Json 200 ((items ! i ++ updates)(''updatedAt'' \<mapsto> JStr now)),
              items[i := (items ! i ++ updates)(''updatedAt'' \<mapsto> JStr now)])"
    using b by (intro exI [of _ i]) (simp add: put_board_item_def put_board_item_redis_def i Let_def)
qed

text \<open>An update of the second of two items, and one for an id nobody has.\<close>

theorem put_board_item_frame_witness:
  "put_board_item True True ''zzz'' [''x'' \<mapsto> JNum 5] ''2025-01-01T00:00:00.000Z''
     [[''id'' \<mapsto> JStr ''a'', ''x'' \<mapsto> JNum 1], [''id'' \<mapsto> JStr ''b'', ''x'' \<mapsto> JNum 2]] []
   = (Error 404 ''Board item not found'',
      [[''id'' \<mapsto> JStr ''a'', ''x'' \<mapsto> JNum 1], [''id'' \<mapsto> JStr ''b'', ''x'' \<mapsto> JNum 2]], []) \<and>
   statusCode (fst (put_board_item True True ''b'' [''x'' \<mapsto> JNum 5] ''2025-01-01T00:00:00.000Z''
     [[''id'' \<mapsto> JStr ''a'', ''x'' \<mapsto> JNum 1], [''id'' \<mapsto> JStr ''b'', ''x'' \<mapsto> JNum 2]] [])) = 200 \<and>
   length (fst (snd (put_board_item True True ''b'' [''x'' \<mapsto> JNum 5] ''2025-01-01T00:00:00.000Z''
     [[''id'' \<mapsto> JStr ''a'', ''x'' \<mapsto> JNum 1], [''id'' \<mapsto> JStr ''b'', ''x'' \<mapsto> JNum 2]] []))) = 2"
proof -
  let ?items = "[[''id'' \<mapsto> JStr ''a'', ''x'' \<mapsto> JNum 1], [''id'' \<mapsto> JStr ''b'', ''x'' \<mapsto> JNum 2]]"
  have miss: "\<forall>item \<in> set ?items. \<not> hasId ''zzz'' item"
    by (simp add: hasId_def)
  have hit: "\<exists>item \<in> set ?items. hasId ''b'' item"
    by (simp add: hasId_def)
  note t = put_board_item_frame [of ?items _ True True "[''x'' \<mapsto> JNum 5]" "''2025-01-01T00:00:00.000Z''" "[]" True]
  have a: "put_board_item True True ''zzz'' [''x'' \<mapsto> JNum 5] ''2025-01-01T00:00:00.000Z'' ?items []
           = (Error 404 ''Board item not found'', ?items, [])"
    using t [of "''zzz''"] miss by blast
  from t [of "''b''"] hit obtain i where
    "fst (put_board_item True True ''b'' [''x'' \<mapsto> JNum 5] ''2025-01-01T00:00:00.000Z'' ?items [])
       = Json 200 ((?items ! i ++ [''x'' \<mapsto> JNum 5])(''updatedAt'' \<mapsto> JStr ''2025-01-01T00:00:00.000Z''))"
    "length (fst (snd (put_board_item True True ''b'' [''x'' \<mapsto> JNum 5] ''2025-01-01T00:00:00.000Z'' ?items [])))
       = length ?items"
    by blast
  then have b: "statusCode (fst (put_board_item True True ''b'' [''x'' \<mapsto> JNum 5] ''2025-01-01T00:00:00.000Z'' ?items [])) = 200 \<and>
           length (fst (snd (put_board_item True True ''b'' [''x'' \<mapsto> JNum 5] ''2025-01-01T00:00:00.000Z'' ?items []))) = 2"
    by simp
  from a b show ?thesis by blast
qed

end
